theory Spec2Isabelle
  imports Main
begin

section \<open>The YouTube data cleansing handler\<close>

text \<open>
  The repository holds one AWS Lambda function, \<^verbatim>\<open>src/lamda_function.py\<close>. On an
  S3 notification it reads a raw JSON object, flattens the records found under
  \<^verbatim>\<open>items\<close> and writes them as a Parquet dataset registered in the Glue catalog.
  This theory embeds the two functions of that file, \<^verbatim>\<open>validate_environment\<close> and
  \<^verbatim>\<open>lambda_handler\<close>, and proves the properties the specification states about
  them.

  Python strings are modelled by their UTF-8 bytes (\<^typ>\<open>string\<close>), dictionaries by
  association lists in insertion order, exceptions by the left summand of a sum type.
\<close>

subsection \<open>Values and exceptions\<close>

text \<open>
  What \<^verbatim>\<open>json.loads\<close> produces: the event handed to the handler and the cells of a
  data frame are values of this type.
\<close>

datatype json =
    JNull
  | JBool bool
  | JInt int
  | JStr string
  | JArr "json list"
  | JObj "(string \<times> json) list"

text \<open>
  The key of a failed dictionary lookup: the handler subscripts with string literals
  and with the integer \<^verbatim>\<open>0\<close>.
\<close>

datatype pykey = StrKey string | IntKey int

text \<open>
  The exceptions that can travel through \<^verbatim>\<open>lambda_handler\<close>. The first is raised
  by \<^verbatim>\<open>validate_environment\<close> itself (line 21) and carries its message; the next
  four are what Python raises when a subscript or an attribute access fails;
  \<^verbatim>\<open>NoFilesFound\<close> and \<^verbatim>\<open>EmptyDataError\<close> are the two library exceptions the
  handler names in its \<^verbatim>\<open>except\<close> clauses (lines 68 and 71); \<^verbatim>\<open>OtherError\<close>
  stands for any other exception a library call raises.
\<close>

datatype error =
    EnvironmentError string
  | KeyError pykey
  | IndexError
  | TypeError
  | AttributeError
  | NoFilesFound string
  | EmptyDataError string
  | OtherError string

subsection \<open>\<^verbatim>\<open>validate_environment\<close> (lines 11 to 28)\<close>

text \<open>The dictionary the function returns, with its four fixed keys.\<close>

record config =
  cleansed_path :: string
  db_name :: string
  table_name :: string
  write_mode :: string

definition required_vars :: "string list" where
  "required_vars =
     [''s3_cleansed_layer'', ''glue_catalog_db_name'', ''glue_catalog_table_name'',
      ''write_data_operation'']"

text \<open>
  \<^verbatim>\<open>repr\<close> of a list of strings, as the f-string of line 21 prints
  \<^verbatim>\<open>missing_vars\<close>: each name between single quotes, separated by a comma and a
  space, in square brackets. The names are the literals of \<^verbatim>\<open>required_vars\<close>, which
  need no escaping.
\<close>

fun join_comma :: "string list \<Rightarrow> string" where
  "join_comma [] = []"
| "join_comma [s] = s"
| "join_comma (s # t # ss) = s @ '', '' @ join_comma (t # ss)"

definition repr_str :: "string \<Rightarrow> string" where
  "repr_str s = [CHR 0x27] @ s @ [CHR 0x27]"

definition repr_list :: "string list \<Rightarrow> string" where
  "repr_list ss = ''['' @ join_comma (map repr_str ss) @ '']''"

text \<open>
  \<^verbatim>\<open>os.environ\<close> is a map from names to values. \<^verbatim>\<open>environ[k]\<close> on lines 24 to 27
  is reached only when every required name is present, so the lookups cannot fail
  there; the model keeps the \<^verbatim>\<open>KeyError\<close> branch of a lookup all the same.
\<close>

definition missing_vars :: "(string \<rightharpoonup> string) \<Rightarrow> string list" where
  "missing_vars environ = filter (\<lambda>var. environ var = None) required_vars"

definition environ_get :: "(string \<rightharpoonup> string) \<Rightarrow> string \<Rightarrow> error + string" where
  "environ_get environ k = (case environ k of None \<Rightarrow> Inl (KeyError (StrKey k)) | Some v \<Rightarrow> Inr v)"

definition validate_environment :: "(string \<rightharpoonup> string) \<Rightarrow> error + config" where
  "validate_environment environ =
     (if missing_vars environ \<noteq> []
      then Inl (EnvironmentError
                 (''Missing environment variables: '' @ repr_list (missing_vars environ)))
      else
        (case environ_get environ ''s3_cleansed_layer'' of Inl e \<Rightarrow> Inl e | Inr cp \<Rightarrow>
        (case environ_get environ ''glue_catalog_db_name'' of Inl e \<Rightarrow> Inl e | Inr db \<Rightarrow>
        (case environ_get environ ''glue_catalog_table_name'' of Inl e \<Rightarrow> Inl e | Inr tb \<Rightarrow>
        (case environ_get environ ''write_data_operation'' of Inl e \<Rightarrow> Inl e | Inr wm \<Rightarrow>
           Inr \<lparr>cleansed_path = cp, db_name = db, table_name = tb, write_mode = wm\<rparr>)))))"

subsection \<open>Reading the notification (lines 37 and 38)\<close>

text \<open>
  Subscripting a value with a string, \<^verbatim>\<open>v['name']\<close>: a dictionary looks the key up
  and raises \<^verbatim>\<open>KeyError\<close> when it is absent; every other kind of value raises
  \<^verbatim>\<open>TypeError\<close> (lists and strings want integer indices, the rest is not
  subscriptable). The keys of a Python dictionary are distinct, so the first binding
  found is the only one.
\<close>

fun getitem :: "json \<Rightarrow> string \<Rightarrow> error + json" where
  "getitem (JObj kvs) k =
     (case map_of kvs k of None \<Rightarrow> Inl (KeyError (StrKey k)) | Some v \<Rightarrow> Inr v)"
| "getitem v k = Inl TypeError"

definition is_continuation :: "char \<Rightarrow> bool" where
  "is_continuation c \<longleftrightarrow> (0x80::nat) \<le> of_char c \<and> (of_char c :: nat) \<le> 0xBF"

text \<open>
  Subscripting with the literal \<^verbatim>\<open>0\<close>, \<^verbatim>\<open>v[0]\<close>: the first element of a list,
  the first character of a string (its lead byte and the continuation bytes after
  it), \<^verbatim>\<open>IndexError\<close> when either is empty, \<^verbatim>\<open>KeyError\<close> on a dictionary (whose
  keys, coming from JSON, are strings), \<^verbatim>\<open>TypeError\<close> otherwise.
\<close>

fun getitem0 :: "json \<Rightarrow> error + json" where
  "getitem0 (JArr []) = Inl IndexError"
| "getitem0 (JArr (x # xs)) = Inr x"
| "getitem0 (JStr []) = Inl IndexError"
| "getitem0 (JStr (c # cs)) = Inr (JStr (c # takeWhile is_continuation cs))"
| "getitem0 (JObj kvs) = Inl (KeyError (IntKey 0))"
| "getitem0 v = Inl TypeError"

text \<open>The common prefix of both lines: \<^verbatim>\<open>event['Records'][0]['s3'][a][b]\<close>.\<close>

definition s3_field :: "json \<Rightarrow> string \<Rightarrow> string \<Rightarrow> error + json" where
  "s3_field event a b =
     (case getitem event ''Records'' of Inl e \<Rightarrow> Inl e | Inr records \<Rightarrow>
     (case getitem0 records of Inl e \<Rightarrow> Inl e | Inr record0 \<Rightarrow>
     (case getitem record0 ''s3'' of Inl e \<Rightarrow> Inl e | Inr s3 \<Rightarrow>
     (case getitem s3 a of Inl e \<Rightarrow> Inl e | Inr inner \<Rightarrow> getitem inner b))))"

subsubsection \<open>\<^verbatim>\<open>urllib.parse.unquote_plus\<close>\<close>

text \<open>
  The standard library's percent-plus decoding, with the handler's
  \<^verbatim>\<open>encoding='utf-8'\<close> and the default \<^verbatim>\<open>errors='replace'\<close>. A percent sign
  followed by two hexadecimal digits stands for one byte; any other percent sign
  stays as it is.
\<close>

definition is_hex :: "char \<Rightarrow> bool" where
  "is_hex c \<longleftrightarrow> c \<in> set ''0123456789ABCDEFabcdef''"

definition hex_val :: "char \<Rightarrow> nat" where
  "hex_val c =
     (let b = (of_char c :: nat)
      in if b < 0x3A then b - 0x30 else if b < 0x47 then b - 0x37 else b - 0x57)"

definition hex_byte :: "char \<Rightarrow> char \<Rightarrow> char" where
  "hex_byte h l = char_of (16 * hex_val h + hex_val l)"

text \<open>
  Decoding bytes as UTF-8 where each ill-formed sequence becomes U+FFFD, written
  back as UTF-8 since that is how strings are represented here. Well-formed
  sequences pass unchanged. An ill-formed sequence is a byte that cannot start a
  character, or a lead byte with the continuation bytes accepted so far when the
  next byte does not continue it, or a truncated character at the end of the input.
\<close>

definition replacement_char :: string where
  "replacement_char = [CHR 0xEF, CHR 0xBF, CHR 0xBD]"

definition bad_second :: "nat \<Rightarrow> char \<Rightarrow> bool" where
  "bad_second lead c2 \<longleftrightarrow>
     \<not> is_continuation c2 \<or>
     (if lead < 0xF0
      then (if (of_char c2 :: nat) < 0xA0 then lead = 0xE0 else lead = 0xED)
      else (if (of_char c2 :: nat) < 0x90 then lead = 0xF0 else lead = 0xF4))"

fun utf8_replace :: "string \<Rightarrow> string" where
  "utf8_replace [] = []"
| "utf8_replace (c # cs) =
     (let b = (of_char c :: nat) in
      if b < 0x80 then c # utf8_replace cs
      else if b < 0xC2 \<or> 0xF5 \<le> b then replacement_char @ utf8_replace cs
      else if b < 0xE0 then
        (case cs of
           [] \<Rightarrow> replacement_char
         | c2 # r2 \<Rightarrow>
             if is_continuation c2 then c # c2 # utf8_replace r2
             else replacement_char @ utf8_replace cs)
      else
        (case cs of
           [] \<Rightarrow> replacement_char
         | c2 # r2 \<Rightarrow>
             if bad_second b c2 then replacement_char @ utf8_replace cs
             else
               (case r2 of
                  [] \<Rightarrow> replacement_char
                | c3 # r3 \<Rightarrow>
                    if \<not> is_continuation c3 then replacement_char @ utf8_replace r2
                    else if b < 0xF0 then c # c2 # c3 # utf8_replace r3
                    else
                      (case r3 of
                         [] \<Rightarrow> replacement_char
                       | c4 # r4 \<Rightarrow>
                           if is_continuation c4 then c # c2 # c3 # c4 # utf8_replace r4
                           else replacement_char @ utf8_replace r3))))"

text \<open>
  \<^verbatim>\<open>unquote\<close> works on the maximal runs of ASCII characters: the bytes a run
  unquotes to are decoded together, characters outside ASCII are copied. The first
  argument collects the bytes of the run being read.
\<close>

fun unquote_scan :: "string \<Rightarrow> string \<Rightarrow> string" where
  "unquote_scan run [] = utf8_replace run"
| "unquote_scan run (c # cs) =
     (if c = CHR ''%'' then
        (case cs of
           h # l # rest \<Rightarrow>
             if is_hex h \<and> is_hex l then unquote_scan (run @ [hex_byte h l]) rest
             else unquote_scan (run @ [c]) cs
         | _ \<Rightarrow> unquote_scan (run @ [c]) cs)
      else if (of_char c :: nat) < 0x80 then unquote_scan (run @ [c]) cs
      else utf8_replace run @ c # unquote_scan [] cs)"

definition unquote :: "string \<Rightarrow> string" where
  "unquote s = (if CHR ''%'' \<notin> set s then s else unquote_scan [] s)"

definition unquote_plus :: "string \<Rightarrow> string" where
  "unquote_plus s = unquote (map (\<lambda>c. if c = CHR ''+'' then CHR '' '' else c) s)"

text \<open>
  Line 38 applies \<^verbatim>\<open>unquote_plus\<close> to whatever the event holds under
  \<^verbatim>\<open>key\<close>; its first step is \<^verbatim>\<open>string.replace\<close>, which only a string has.
\<close>

fun unquote_plus_value :: "json \<Rightarrow> error + string" where
  "unquote_plus_value (JStr s) = Inr (unquote_plus s)"
| "unquote_plus_value v = Inl AttributeError"

text \<open>
  Lines 37 and 38 together: the bucket is taken as it is, the key is unquoted. Line
  37 is evaluated first, so its failure wins.
\<close>

definition parse_s3_event :: "json \<Rightarrow> error + json \<times> string" where
  "parse_s3_event event =
     (case s3_field event ''bucket'' ''name'' of Inl e \<Rightarrow> Inl e | Inr bucket \<Rightarrow>
     (case s3_field event ''object'' ''key'' of Inl e \<Rightarrow> Inl e | Inr k \<Rightarrow>
     (case unquote_plus_value k of Inl e \<Rightarrow> Inl e | Inr key \<Rightarrow> Inr (bucket, key))))"

subsection \<open>Data frames\<close>

text \<open>
  A pandas data frame, column by column: \<^verbatim>\<open>len(df)\<close> is \<open>nrows\<close>, every column
  holds \<open>nrows\<close> cells, and a cell is a value or missing (\<open>None\<close>, pandas' NaN).
\<close>

record dataframe =
  nrows :: nat
  cols :: "(string \<times> json option list) list"

text \<open>\<^verbatim>\<open>df[name]\<close>: the cells of the column, \<^verbatim>\<open>KeyError\<close> when there is none.\<close>

definition getitem_column :: "dataframe \<Rightarrow> string \<Rightarrow> error + json option list" where
  "getitem_column df name =
     (case map_of (cols df) name of None \<Rightarrow> Inl (KeyError (StrKey name)) | Some cells \<Rightarrow> Inr cells)"

subsection \<open>\<^verbatim>\<open>pandas.json_normalize\<close> (line 46)\<close>

text \<open>
  Modelled from the spec: \<^verbatim>\<open>pandas.json_normalize\<close> is a library function, called on
  line 46, whose code is not in the repository. The specification fixes what it
  computes (section 3, FlatRecord, and section 4.3, step 3): each element of
  \<^verbatim>\<open>items\<close> becomes one row; a nested object is replaced by its fields, named by the
  path to them joined with dots, so \<^verbatim>\<open>{"a": {"b": 1}}\<close> gives the column
  \<^verbatim>\<open>a.b\<close> with value \<^verbatim>\<open>1\<close>; arrays and scalars are kept as they are; the columns of
  the result are the union of the flattened keys of all records, and a record without
  a key has a missing cell there. The definitions follow the library's own recursion:
  the fields that are not objects come first, in their order, then the flattened
  nested fields; assigning to a key already present replaces its value in place.
\<close>

fun dict_set :: "(string \<times> json) list \<Rightarrow> string \<Rightarrow> json \<Rightarrow> (string \<times> json) list" where
  "dict_set [] k v = [(k, v)]"
| "dict_set ((k', v') # d) k v = (if k' = k then (k, v) # d else (k', v') # dict_set d k v)"

fun is_dict :: "json \<Rightarrow> bool" where
  "is_dict (JObj kvs) = True"
| "is_dict v = False"

definition new_key :: "string \<Rightarrow> string \<Rightarrow> string" where
  "new_key key_string k = (if key_string = [] then k else key_string @ ''.'' @ k)"

fun normalise_json :: "json \<Rightarrow> string \<Rightarrow> (string \<times> json) list \<Rightarrow> (string \<times> json) list"
  and normalise_items ::
    "(string \<times> json) list \<Rightarrow> string \<Rightarrow> (string \<times> json) list \<Rightarrow> (string \<times> json) list"
where
  "normalise_json (JObj kvs) key_string normalized_dict =
     normalise_items kvs key_string normalized_dict"
| "normalise_json JNull key_string normalized_dict = dict_set normalized_dict key_string JNull"
| "normalise_json (JBool b) key_string normalized_dict =
     dict_set normalized_dict key_string (JBool b)"
| "normalise_json (JInt i) key_string normalized_dict =
     dict_set normalized_dict key_string (JInt i)"
| "normalise_json (JStr s) key_string normalized_dict =
     dict_set normalized_dict key_string (JStr s)"
| "normalise_json (JArr xs) key_string normalized_dict =
     dict_set normalized_dict key_string (JArr xs)"
| "normalise_items [] key_string normalized_dict = normalized_dict"
| "normalise_items ((k, v) # kvs) key_string normalized_dict =
     normalise_items kvs key_string (normalise_json v (new_key key_string k) normalized_dict)"

text \<open>One record: the flat fields, then the nested ones merged over them.\<close>

definition dict_update :: "(string \<times> json) list \<Rightarrow> (string \<times> json) list \<Rightarrow> (string \<times> json) list"
  where
  "dict_update d e = foldl (\<lambda>acc (k, v). dict_set acc k v) d e"

definition normalise_json_ordered :: "(string \<times> json) list \<Rightarrow> (string \<times> json) list" where
  "normalise_json_ordered data =
     (let top_dict = filter (\<lambda>(k, v). \<not> is_dict v) data;
          nested_dict = normalise_json (JObj (filter (\<lambda>(k, v). is_dict v) data)) [] []
      in dict_update top_dict nested_dict)"

text \<open>
  The frame built from a list of flat records: the columns are the keys in the order
  in which they first appear, and each column holds, row by row, the record's value
  for the key or a missing cell.
\<close>

definition add_column :: "string list \<Rightarrow> string \<Rightarrow> string list" where
  "add_column names k = (if k \<in> set names then names else names @ [k])"

definition union_columns :: "(string \<times> json) list list \<Rightarrow> string list" where
  "union_columns ds = foldl add_column [] (concat (map (map fst) ds))"

definition frame_of_dicts :: "(string \<times> json) list list \<Rightarrow> dataframe" where
  "frame_of_dicts ds =
     \<lparr>nrows = length ds,
      cols = map (\<lambda>name. (name, map (\<lambda>d. map_of d name) ds)) (union_columns ds)\<rparr>"

text \<open>The cells of a column when every one of them is a record.\<close>

fun records_of :: "json option list \<Rightarrow> (string \<times> json) list list option" where
  "records_of [] = Some []"
| "records_of (Some (JObj d) # cells) = map_option ((#) d) (records_of cells)"
| "records_of (cell # cells) = None"

subsection \<open>The collaborators\<close>

text \<open>The keyword arguments of \<^verbatim>\<open>wr.s3.to_parquet\<close> on lines 51 to 58.\<close>

record parquet_args =
  df :: dataframe
  path :: string
  dataset :: bool
  database :: string
  table :: string
  mode :: string

text \<open>
  What the handler calls and the repository does not define. \<open>read_json\<close> is
  \<^verbatim>\<open>wr.s3.read_json\<close>: it fetches the object at a path and parses it into a frame, or
  raises. \<open>to_parquet\<close> is \<^verbatim>\<open>wr.s3.to_parquet\<close>: it writes the dataset and
  registers the table, and returns normally (\<open>None\<close>) or raises. The last two fields
  leave open what the library does outside the documented use:
  \<open>json_normalize_other\<close> is the result of \<^verbatim>\<open>pd.json_normalize\<close> on a column in
  which some cell is not a record, and \<open>str_other\<close> is \<^verbatim>\<open>str\<close> of a bucket that is
  not a string. Every theorem below holds whatever these four functions are.
\<close>

record libs =
  read_json :: "string \<Rightarrow> error + dataframe"
  to_parquet :: "parquet_args \<Rightarrow> error option"
  json_normalize_other :: "json option list \<Rightarrow> error + dataframe"
  str_other :: "json \<Rightarrow> string"

definition json_normalize :: "libs \<Rightarrow> json option list \<Rightarrow> error + dataframe" where
  "json_normalize L cells =
     (case records_of cells of
        Some ds \<Rightarrow> Inr (frame_of_dicts (map normalise_json_ordered ds))
      | None \<Rightarrow> json_normalize_other L cells)"

text \<open>A value inside an f-string: a string is inserted as it is.\<close>

fun format_value :: "libs \<Rightarrow> json \<Rightarrow> string" where
  "format_value L (JStr s) = s"
| "format_value L v = str_other L v"

subsection \<open>\<^verbatim>\<open>lambda_handler\<close> (lines 30 to 76)\<close>

text \<open>
  What the handler leaves behind besides its result: the records it hands to the
  logger, in order, and the calls of \<^verbatim>\<open>wr.s3.to_parquet\<close> it makes. The logger is
  set to level INFO (line 9), so the \<^verbatim>\<open>logger.debug\<close> of line 48 emits nothing and
  has no entry. An error record keeps the prefix of its message, the exception whose
  \<^verbatim>\<open>str\<close> follows the prefix, and whether \<^verbatim>\<open>exc_info\<close> was asked for.
\<close>

datatype log_entry =
    InfoEnvironmentConfig config
  | InfoProcessingFile string
  | InfoRawDataColumns "string list"
  | InfoProcessedShape nat nat
  | InfoDataWritten string
  | ErrorLog string error bool

record world =
  logged :: "log_entry list"
  parquet_calls :: "parquet_args list"

definition emit :: "log_entry \<Rightarrow> world \<Rightarrow> world" where
  "emit entry w = w\<lparr>logged := logged w @ [entry]\<rparr>"

definition call_to_parquet :: "parquet_args \<Rightarrow> world \<Rightarrow> world" where
  "call_to_parquet args w = w\<lparr>parquet_calls := parquet_calls w @ [args]\<rparr>"

text \<open>The dictionary returned on lines 61 to 66.\<close>

record response =
  statusCode :: int
  body :: string
  output_location :: string
  processed_rows :: nat

text \<open>
  The body of the \<^verbatim>\<open>try\<close> statement, lines 32 to 66. The first exception ends it;
  what was logged and written before stays in the world. The second parameter of the
  Python function, \<^verbatim>\<open>context\<close>, is never used and is left out; the process
  environment, which \<^verbatim>\<open>validate_environment\<close> reads, is a parameter.
\<close>

definition try_body ::
  "libs \<Rightarrow> (string \<rightharpoonup> string) \<Rightarrow> json \<Rightarrow> world \<Rightarrow> (error + response) \<times> world" where
  "try_body L environ event w0 =
     (case validate_environment environ of Inl e \<Rightarrow> (Inl e, w0) | Inr env \<Rightarrow>
      let w1 = emit (InfoEnvironmentConfig env) w0 in
     (case parse_s3_event event of Inl e \<Rightarrow> (Inl e, w1) | Inr (bucket, key) \<Rightarrow>
      let s3_path = ''s3://'' @ format_value L bucket @ ''/'' @ key;
          w2 = emit (InfoProcessingFile s3_path) w1 in
     (case read_json L s3_path of Inl e \<Rightarrow> (Inl e, w2) | Inr df_raw \<Rightarrow>
      let w3 = emit (InfoRawDataColumns (map fst (cols df_raw))) w2 in
     (case getitem_column df_raw ''items'' of Inl e \<Rightarrow> (Inl e, w3) | Inr items \<Rightarrow>
     (case json_normalize L items of Inl e \<Rightarrow> (Inl e, w3) | Inr df_processed \<Rightarrow>
      let w4 = emit (InfoProcessedShape (nrows df_processed) (length (cols df_processed))) w3;
          args = \<lparr>df = df_processed, path = cleansed_path env, dataset = True,
                  database = db_name env, table = table_name env, mode = write_mode env\<rparr>;
          w5 = call_to_parquet args w4 in
     (case to_parquet L args of Some e \<Rightarrow> (Inl e, w5) | None \<Rightarrow>
      let w6 = emit (InfoDataWritten (cleansed_path env)) w5 in
      (Inr \<lparr>statusCode = 200, body = ''Successfully processed '' @ key,
            output_location = cleansed_path env,
            processed_rows = nrows df_processed\<rparr>, w6)))))))"

text \<open>
  The three \<^verbatim>\<open>except\<close> clauses, lines 68 to 76, tried in order: each logs one error
  record and raises the exception again.
\<close>

fun except_clause :: "error \<Rightarrow> log_entry" where
  "except_clause (NoFilesFound m) = ErrorLog ''S3 file not found: '' (NoFilesFound m) False"
| "except_clause (EmptyDataError m) = ErrorLog ''Empty/invalid JSON: '' (EmptyDataError m) False"
| "except_clause e = ErrorLog ''Unexpected error: '' e True"

definition lambda_handler ::
  "libs \<Rightarrow> (string \<rightharpoonup> string) \<Rightarrow> json \<Rightarrow> world \<Rightarrow> (error + response) \<times> world" where
  "lambda_handler L environ event w0 =
     (case try_body L environ event w0 of
        (Inl e, w) \<Rightarrow> (Inl e, emit (except_clause e) w)
      | (Inr r, w) \<Rightarrow> (Inr r, w))"

subsection \<open>A storage with one bucket of documents\<close>

text \<open>
  A concrete collaborator for the examples, after the local test at the end of the
  source file (lines 79 to 94). The storage is a list of paths with the JSON document
  stored at each. Reading a path that holds nothing raises \<^verbatim>\<open>NoFilesFound\<close>.
  A document is turned into a frame the way \<^verbatim>\<open>pandas.read_json\<close> does in its default
  orientation, where a document maps each column name to its cells: an array gives
  the cells in order, an object gives the cells by row label. Only these two shapes
  are covered, with cells that are records; every other document is refused here.
\<close>

fun array_cells :: "json \<Rightarrow> json option list option" where
  "array_cells (JArr xs) = (if list_all is_dict xs then Some (map Some xs) else None)"
| "array_cells v = None"

fun object_cells :: "json \<Rightarrow> json option list option" where
  "object_cells (JObj kvs) = (if list_all is_dict (map snd kvs) then Some (map (Some \<circ> snd) kvs) else None)"
| "object_cells v = None"

fun frame_of_document :: "json \<Rightarrow> error + dataframe" where
  "frame_of_document (JObj [(name, v)]) =
     (case array_cells v of
        Some cells \<Rightarrow> Inr \<lparr>nrows = length cells, cols = [(name, cells)]\<rparr>
      | None \<Rightarrow>
          (case object_cells v of
             Some cells \<Rightarrow> Inr \<lparr>nrows = length cells, cols = [(name, cells)]\<rparr>
           | None \<Rightarrow> Inl (OtherError ''document shape not covered'')))"
| "frame_of_document v = Inl (OtherError ''document shape not covered'')"

definition storage_libs :: "(string \<times> json) list \<Rightarrow> libs" where
  "storage_libs objects =
     \<lparr>read_json = (\<lambda>p. case map_of objects p of
                           None \<Rightarrow> Inl (NoFilesFound p)
                         | Some doc \<Rightarrow> frame_of_document doc),
      to_parquet = (\<lambda>args. None),
      json_normalize_other = (\<lambda>cells. Inl TypeError),
      str_other = (\<lambda>v. [])\<rparr>"

definition test_environ :: "string \<rightharpoonup> string" where
  "test_environ =
     [''s3_cleansed_layer'' \<mapsto> ''s3://test-output/'',
      ''glue_catalog_db_name'' \<mapsto> ''test_db'',
      ''glue_catalog_table_name'' \<mapsto> ''test_table'',
      ''write_data_operation'' \<mapsto> ''overwrite'']"

definition s3_record :: "string \<Rightarrow> string \<Rightarrow> json" where
  "s3_record bucket key =
     JObj [(''s3'', JObj [(''bucket'', JObj [(''name'', JStr bucket)]),
                          (''object'', JObj [(''key'', JStr key)])])]"

definition mock_event :: json where
  "mock_event = JObj [(''Records'', JArr [s3_record ''test-bucket'' ''test/key.json''])]"

definition empty_world :: world where
  "empty_world = \<lparr>logged = [], parquet_calls = []\<rparr>"

text \<open>
  The object of the specification's first end-to-end scenario,
  \<^verbatim>\<open>{"items":[{"a":1,"b":{"c":2}}]}\<close>, and the path the test event points to.
\<close>

definition scenario_a_document :: json where
  "scenario_a_document =
     JObj [(''items'', JArr [JObj [(''a'', JInt 1), (''b'', JObj [(''c'', JInt 2)])]])]"

definition test_path :: string where
  "test_path = ''s3://test-bucket/test/key.json''"

section \<open>Properties\<close>

subsection \<open>Configuration\<close>

lemma set_missing_vars:
  "set (missing_vars environ) = {v \<in> set required_vars. environ v = None}"
  by (auto simp: missing_vars_def)

text \<open>
  Claim C3. Whenever one or more of the four required variables is absent from the
  environment, \<^verbatim>\<open>validate_environment\<close> raises its configuration error, whose
  message lists the absent variables: all of them, each once, and no variable that is
  present. No configuration is returned, so nothing is defaulted.
\<close>

theorem validate_environment_lists_missing:
  assumes "k \<in> set required_vars" and "environ k = None"
  shows "validate_environment environ =
           Inl (EnvironmentError
                 (''Missing environment variables: '' @ repr_list (missing_vars environ)))
         \<and> set (missing_vars environ) = {v \<in> set required_vars. environ v = None}
         \<and> distinct (missing_vars environ)
         \<and> k \<in> set (missing_vars environ)"
proof -
  from assms have k: "k \<in> set (missing_vars environ)"
    by (simp add: set_missing_vars)
  then have "missing_vars environ \<noteq> []"
    by auto
  then have "validate_environment environ =
      Inl (EnvironmentError
            (''Missing environment variables: '' @ repr_list (missing_vars environ)))"
    by (simp add: validate_environment_def)
  moreover have "distinct (missing_vars environ)"
    by (simp add: missing_vars_def required_vars_def)
  ultimately show ?thesis
    using k by (simp add: set_missing_vars)
qed

text \<open>
  With only the destination and the database set, the message names the table and the
  write operation, in the order of \<^verbatim>\<open>required_vars\<close>.
\<close>

theorem validate_environment_lists_missing_witness:
  "validate_environment
     [''s3_cleansed_layer'' \<mapsto> ''s3://test-output/'', ''glue_catalog_db_name'' \<mapsto> ''test_db'']
   = Inl (EnvironmentError
       (''Missing environment variables: '' @
        [CHR ''['', CHR 0x27] @ ''glue_catalog_table_name'' @
        [CHR 0x27, CHR '','', CHR '' '', CHR 0x27] @
        ''write_data_operation'' @ [CHR 0x27, CHR '']'']))
   \<and> missing_vars
     [''s3_cleansed_layer'' \<mapsto> ''s3://test-output/'', ''glue_catalog_db_name'' \<mapsto> ''test_db'']
     = [''glue_catalog_table_name'', ''write_data_operation'']"
proof -
  let ?env = "[''s3_cleansed_layer'' \<mapsto> ''s3://test-output/'',
               ''glue_catalog_db_name'' \<mapsto> ''test_db'']"
  have m: "missing_vars ?env = [''glue_catalog_table_name'', ''write_data_operation'']"
    by (simp add: missing_vars_def required_vars_def)
  have k: "''write_data_operation'' \<in> set required_vars"
    by (simp add: required_vars_def)
  have n: "?env ''write_data_operation'' = None"
    by simp
  show ?thesis
    using validate_environment_lists_missing [of "''write_data_operation''" ?env] k n
    by (simp add: m repr_list_def repr_str_def)
qed

subsection \<open>The stages of the handler\<close>

text \<open>
  The handler is a chain of six stages. The lemmas below give its outcome when a
  given stage is the first to fail, and when none fails.
\<close>

lemma validate_environment_present:
  assumes "environ ''s3_cleansed_layer'' = Some cp"
    and "environ ''glue_catalog_db_name'' = Some db"
    and "environ ''glue_catalog_table_name'' = Some tb"
    and "environ ''write_data_operation'' = Some wm"
  shows "validate_environment environ =
           Inr \<lparr>cleansed_path = cp, db_name = db, table_name = tb, write_mode = wm\<rparr>"
proof -
  have "missing_vars environ = []"
    using assms by (simp add: missing_vars_def required_vars_def)
  then show ?thesis
    using assms by (simp add: validate_environment_def environ_get_def)
qed

lemma parquet_calls_emit [simp]: "parquet_calls (emit entry w) = parquet_calls w"
  by (simp add: emit_def)

lemma logged_emit [simp]: "logged (emit entry w) = logged w @ [entry]"
  by (simp add: emit_def)

lemma parquet_calls_call [simp]:
  "parquet_calls (call_to_parquet args w) = parquet_calls w @ [args]"
  by (simp add: call_to_parquet_def)

lemma logged_call [simp]: "logged (call_to_parquet args w) = logged w"
  by (simp add: call_to_parquet_def)

lemma try_body_validate_fails:
  "validate_environment environ = Inl e \<Longrightarrow> try_body L environ event w = (Inl e, w)"
  by (simp add: try_body_def)

lemma try_body_parse_fails:
  "validate_environment environ = Inr env \<Longrightarrow> parse_s3_event event = Inl e \<Longrightarrow>
   try_body L environ event w = (Inl e, emit (InfoEnvironmentConfig env) w)"
  by (simp add: try_body_def)

lemma try_body_read_fails:
  "validate_environment environ = Inr env \<Longrightarrow> parse_s3_event event = Inr (bucket, key) \<Longrightarrow>
   read_json L (''s3://'' @ format_value L bucket @ ''/'' @ key) = Inl e \<Longrightarrow>
   try_body L environ event w =
     (Inl e, emit (InfoProcessingFile (''s3://'' @ format_value L bucket @ ''/'' @ key))
               (emit (InfoEnvironmentConfig env) w))"
  by (simp add: try_body_def)

lemma try_body_items_fails:
  "validate_environment environ = Inr env \<Longrightarrow> parse_s3_event event = Inr (bucket, key) \<Longrightarrow>
   read_json L (''s3://'' @ format_value L bucket @ ''/'' @ key) = Inr df_raw \<Longrightarrow>
   getitem_column df_raw ''items'' = Inl e \<Longrightarrow>
   try_body L environ event w =
     (Inl e, emit (InfoRawDataColumns (map fst (cols df_raw)))
              (emit (InfoProcessingFile (''s3://'' @ format_value L bucket @ ''/'' @ key))
               (emit (InfoEnvironmentConfig env) w)))"
  by (simp add: try_body_def)

lemma try_body_normalize_fails:
  "validate_environment environ = Inr env \<Longrightarrow> parse_s3_event event = Inr (bucket, key) \<Longrightarrow>
   read_json L (''s3://'' @ format_value L bucket @ ''/'' @ key) = Inr df_raw \<Longrightarrow>
   getitem_column df_raw ''items'' = Inr items \<Longrightarrow>
   json_normalize L items = Inl e \<Longrightarrow>
   try_body L environ event w =
     (Inl e, emit (InfoRawDataColumns (map fst (cols df_raw)))
              (emit (InfoProcessingFile (''s3://'' @ format_value L bucket @ ''/'' @ key))
               (emit (InfoEnvironmentConfig env) w)))"
  by (simp add: try_body_def)


lemma try_body_write_fails:
  "validate_environment environ = Inr env \<Longrightarrow> parse_s3_event event = Inr (bucket, key) \<Longrightarrow>
   read_json L (''s3://'' @ format_value L bucket @ ''/'' @ key) = Inr df_raw \<Longrightarrow>
   getitem_column df_raw ''items'' = Inr items \<Longrightarrow>
   json_normalize L items = Inr dfp \<Longrightarrow>
   to_parquet L \<lparr>df = dfp, path = cleansed_path env, dataset = True,
                  database = db_name env, table = table_name env, mode = write_mode env\<rparr>
     = Some e \<Longrightarrow>
   try_body L environ event w =
     (Inl e,
      call_to_parquet \<lparr>df = dfp, path = cleansed_path env, dataset = True,
                  database = db_name env, table = table_name env, mode = write_mode env\<rparr>
       (emit (InfoProcessedShape (nrows dfp) (length (cols dfp)))
        (emit (InfoRawDataColumns (map fst (cols df_raw)))
         (emit (InfoProcessingFile (''s3://'' @ format_value L bucket @ ''/'' @ key))
          (emit (InfoEnvironmentConfig env) w)))))"
  by (simp add: try_body_def Let_def)

lemma try_body_succeeds:
  "validate_environment environ = Inr env \<Longrightarrow> parse_s3_event event = Inr (bucket, key) \<Longrightarrow>
   read_json L (''s3://'' @ format_value L bucket @ ''/'' @ key) = Inr df_raw \<Longrightarrow>
   getitem_column df_raw ''items'' = Inr items \<Longrightarrow>
   json_normalize L items = Inr dfp \<Longrightarrow>
   to_parquet L \<lparr>df = dfp, path = cleansed_path env, dataset = True,
                  database = db_name env, table = table_name env, mode = write_mode env\<rparr>
     = None \<Longrightarrow>
   try_body L environ event w =
     (Inr \<lparr>statusCode = 200, body = ''Successfully processed '' @ key,
           output_location = cleansed_path env, processed_rows = nrows dfp\<rparr>,
      emit (InfoDataWritten (cleansed_path env))
      (call_to_parquet \<lparr>df = dfp, path = cleansed_path env, dataset = True,
                  database = db_name env, table = table_name env, mode = write_mode env\<rparr>
       (emit (InfoProcessedShape (nrows dfp) (length (cols dfp)))
        (emit (InfoRawDataColumns (map fst (cols df_raw)))
         (emit (InfoProcessingFile (''s3://'' @ format_value L bucket @ ''/'' @ key))
          (emit (InfoEnvironmentConfig env) w))))))"
  by (simp add: try_body_def Let_def)

lemma fst_lambda_handler:
  "fst (lambda_handler L environ event w) = fst (try_body L environ event w)"
  by (simp add: lambda_handler_def split: prod.splits sum.splits)

lemma parquet_calls_lambda_handler:
  "parquet_calls (snd (lambda_handler L environ event w)) =
   parquet_calls (snd (try_body L environ event w))"
  by (simp add: lambda_handler_def split: prod.splits sum.splits)

lemma try_body_before_commit:
  assumes nc: "parquet_calls (snd (try_body L environ event w)) = parquet_calls w"
    and v: "validate_environment environ = Inr env"
    and v': "validate_environment environ' = Inr env'"
  shows "fst (try_body L environ' event w) = fst (try_body L environ event w)"
proof (cases "parse_s3_event event")
  case (Inl e)
  then show ?thesis
    by (simp add: try_body_parse_fails [OF v] try_body_parse_fails [OF v'])
next
  case (Inr bk)
  obtain bucket key where bk: "bk = (bucket, key)"
    by (cases bk)
  note p = Inr [unfolded bk]
  show ?thesis
  proof (cases "read_json L (''s3://'' @ format_value L bucket @ ''/'' @ key)")
    case (Inl e)
    then show ?thesis
      by (simp add: try_body_read_fails [OF v p] try_body_read_fails [OF v' p])
  next
    case rd: (Inr df_raw)
    show ?thesis
    proof (cases "getitem_column df_raw ''items''")
      case (Inl e)
      then show ?thesis
        by (simp add: try_body_items_fails [OF v p rd] try_body_items_fails [OF v' p rd])
    next
      case it: (Inr items)
      show ?thesis
      proof (cases "json_normalize L items")
        case (Inl e)
        then show ?thesis
          by (simp add: try_body_normalize_fails [OF v p rd it]
              try_body_normalize_fails [OF v' p rd it])
      next
        case nm: (Inr dfp)
        show ?thesis
        proof (cases "to_parquet L \<lparr>df = dfp, path = cleansed_path env, dataset = True,
                  database = db_name env, table = table_name env, mode = write_mode env\<rparr>")
          case None
          from nc show ?thesis
            by (simp add: try_body_succeeds [OF v p rd it nm None])
        next
          case (Some e)
          from nc show ?thesis
            by (simp add: try_body_write_fails [OF v p rd it nm Some])
        qed
      qed
    qed
  qed
qed

lemma lambda_handler_commit:
  assumes v: "validate_environment environ = Inr env"
    and p: "parse_s3_event event = Inr (bucket, key)"
    and rd: "read_json L (''s3://'' @ format_value L bucket @ ''/'' @ key) = Inr df_raw"
    and it: "getitem_column df_raw ''items'' = Inr items"
    and nm: "json_normalize L items = Inr dfp"
  shows "fst (lambda_handler L environ event w) =
    (case to_parquet L \<lparr>df = dfp, path = cleansed_path env, dataset = True,
                  database = db_name env, table = table_name env, mode = write_mode env\<rparr> of
       Some e \<Rightarrow> Inl e
     | None \<Rightarrow> Inr \<lparr>statusCode = 200, body = ''Successfully processed '' @ key,
                    output_location = cleansed_path env, processed_rows = nrows dfp\<rparr>)"
proof (cases "to_parquet L \<lparr>df = dfp, path = cleansed_path env, dataset = True,
                  database = db_name env, table = table_name env, mode = write_mode env\<rparr>")
  case None
  from try_body_succeeds [OF v p rd it nm None] None show ?thesis
    by (simp add: fst_lambda_handler)
next
  case (Some e)
  from try_body_write_fails [OF v p rd it nm Some] Some show ?thesis
    by (simp add: fst_lambda_handler)
qed

lemma lambda_handler_before_commit:
  assumes "parquet_calls (snd (lambda_handler L environ event w)) = parquet_calls w"
    and "validate_environment environ = Inr env"
    and "validate_environment environ' = Inr env'"
  shows "fst (lambda_handler L environ' event w) = fst (lambda_handler L environ event w)"
  using assms try_body_before_commit [of L environ event w env environ' env']
  by (simp add: fst_lambda_handler parquet_calls_lambda_handler)

subsection \<open>The write mode\<close>

text \<open>
  Claim C10. \<^verbatim>\<open>validate_environment\<close> looks only at which variables are present. With
  all four present it returns their values unchanged, whatever
  \<^verbatim>\<open>write_data_operation\<close> holds. The value then reaches \<^verbatim>\<open>wr.s3.to_parquet\<close> as its
  \<^verbatim>\<open>mode\<close> argument, and the outcome of the handler from there on is that call: a
  rejection of the mode is raised by it. A run that ends without having called
  \<^verbatim>\<open>to_parquet\<close> ends the same way under any other write mode.
\<close>

theorem write_mode_not_validated:
  assumes "environ ''s3_cleansed_layer'' = Some cp"
    and "environ ''glue_catalog_db_name'' = Some db"
    and "environ ''glue_catalog_table_name'' = Some tb"
    and "environ ''write_data_operation'' = Some wm"
  shows "validate_environment environ =
           Inr \<lparr>cleansed_path = cp, db_name = db, table_name = tb, write_mode = wm\<rparr>
    \<and> (\<forall>bucket key df_raw items dfp.
          parse_s3_event event = Inr (bucket, key) \<longrightarrow>
          read_json L (''s3://'' @ format_value L bucket @ ''/'' @ key) = Inr df_raw \<longrightarrow>
          getitem_column df_raw ''items'' = Inr items \<longrightarrow>
          json_normalize L items = Inr dfp \<longrightarrow>
          fst (lambda_handler L environ event w) =
            (case to_parquet L \<lparr>df = dfp, path = cp, dataset = True, database = db,
                                table = tb, mode = wm\<rparr> of
               Some e \<Rightarrow> Inl e
             | None \<Rightarrow> Inr \<lparr>statusCode = 200, body = ''Successfully processed '' @ key,
                            output_location = cp, processed_rows = nrows dfp\<rparr>))
    \<and> (\<forall>wm'. parquet_calls (snd (lambda_handler L environ event w)) = parquet_calls w \<longrightarrow>
          fst (lambda_handler L (environ(''write_data_operation'' \<mapsto> wm')) event w) =
          fst (lambda_handler L environ event w))"
proof (intro conjI allI impI)
  let ?env = "\<lparr>cleansed_path = cp, db_name = db, table_name = tb, write_mode = wm\<rparr>"
  show v: "validate_environment environ = Inr ?env"
    using assms by (rule validate_environment_present)
  {
    fix bucket key df_raw items dfp
    assume p: "parse_s3_event event = Inr (bucket, key)"
      and rd: "read_json L (''s3://'' @ format_value L bucket @ ''/'' @ key) = Inr df_raw"
      and it: "getitem_column df_raw ''items'' = Inr items"
      and nm: "json_normalize L items = Inr dfp"
    from lambda_handler_commit [OF v p rd it nm, of w]
    show "fst (lambda_handler L environ event w) =
            (case to_parquet L \<lparr>df = dfp, path = cp, dataset = True, database = db,
                                table = tb, mode = wm\<rparr> of
               Some e \<Rightarrow> Inl e
             | None \<Rightarrow> Inr \<lparr>statusCode = 200, body = ''Successfully processed '' @ key,
                            output_location = cp, processed_rows = nrows dfp\<rparr>)"
      by (simp cong: option.case_cong)
  }
  {
    fix wm'
    assume nc: "parquet_calls (snd (lambda_handler L environ event w)) = parquet_calls w"
    have v': "validate_environment (environ(''write_data_operation'' \<mapsto> wm')) =
            Inr \<lparr>cleansed_path = cp, db_name = db, table_name = tb, write_mode = wm'\<rparr>"
      using assms by (intro validate_environment_present) simp_all
    from nc v v'
    show "fst (lambda_handler L (environ(''write_data_operation'' \<mapsto> wm')) event w) =
          fst (lambda_handler L environ event w)"
      by (rule lambda_handler_before_commit)
  }
qed

text \<open>
  The test event of the source file, and the first scenario's document, evaluated
  stage by stage.
\<close>

lemma unquote_plus_test_key: "unquote_plus ''test/key.json'' = ''test/key.json''"
  by (simp add: unquote_plus_def unquote_def)

lemma parse_mock_event:
  "parse_s3_event mock_event = Inr (JStr ''test-bucket'', ''test/key.json'')"
  by (simp add: parse_s3_event_def s3_field_def mock_event_def s3_record_def
      unquote_plus_test_key)

lemma read_scenario_a:
  "read_json (storage_libs [(test_path, scenario_a_document)])
     (''s3://'' @ format_value (storage_libs [(test_path, scenario_a_document)])
        (JStr ''test-bucket'') @ ''/'' @ ''test/key.json'')
   = Inr \<lparr>nrows = 1,
          cols = [(''items'', [Some (JObj [(''a'', JInt 1), (''b'', JObj [(''c'', JInt 2)])])])]\<rparr>"
  by (simp add: storage_libs_def test_path_def scenario_a_document_def)

lemma normalise_scenario_a:
  "normalise_json_ordered [(''a'', JInt 1), (''b'', JObj [(''c'', JInt 2)])] =
     [(''a'', JInt 1), (''b.c'', JInt 2)]"
  by (simp add: normalise_json_ordered_def dict_update_def new_key_def)

lemma json_normalize_scenario_a:
  "json_normalize L [Some (JObj [(''a'', JInt 1), (''b'', JObj [(''c'', JInt 2)])])] =
     Inr \<lparr>nrows = 1, cols = [(''a'', [Some (JInt 1)]), (''b.c'', [Some (JInt 2)])]\<rparr>"
  by (simp add: json_normalize_def normalise_scenario_a frame_of_dicts_def union_columns_def
      add_column_def)


text \<open>
  The test environment with the write mode \<^verbatim>\<open>upsert\<close>, which is neither
  \<^verbatim>\<open>append\<close> nor \<^verbatim>\<open>overwrite\<close>: validation returns it, and with a writer that
  accepts it the handler succeeds.
\<close>

theorem write_mode_not_validated_witness:
  "validate_environment (test_environ(''write_data_operation'' \<mapsto> ''upsert'')) =
     Inr \<lparr>cleansed_path = ''s3://test-output/'', db_name = ''test_db'',
          table_name = ''test_table'', write_mode = ''upsert''\<rparr>
   \<and> fst (lambda_handler (storage_libs [(test_path, scenario_a_document)])
          (test_environ(''write_data_operation'' \<mapsto> ''upsert'')) mock_event empty_world) =
     Inr \<lparr>statusCode = 200, body = ''Successfully processed test/key.json'',
          output_location = ''s3://test-output/'', processed_rows = 1\<rparr>"
proof -
  let ?L = "storage_libs [(test_path, scenario_a_document)]"
  let ?environ = "test_environ(''write_data_operation'' \<mapsto> ''upsert'')"
  have e1: "?environ ''s3_cleansed_layer'' = Some ''s3://test-output/''"
    and e2: "?environ ''glue_catalog_db_name'' = Some ''test_db''"
    and e3: "?environ ''glue_catalog_table_name'' = Some ''test_table''"
    and e4: "?environ ''write_data_operation'' = Some ''upsert''"
    by (simp_all add: test_environ_def)
  have w: "to_parquet ?L args = None" for args
    by (simp add: storage_libs_def)
  have it: "getitem_column
      \<lparr>nrows = 1,
         cols = [(''items'', [Some (JObj [(''a'', JInt 1), (''b'', JObj [(''c'', JInt 2)])])])]\<rparr>
      ''items'' = Inr [Some (JObj [(''a'', JInt 1), (''b'', JObj [(''c'', JInt 2)])])]"
    by (simp add: getitem_column_def)
  from write_mode_not_validated [OF e1 e2 e3 e4, of mock_event ?L empty_world]
  have "validate_environment ?environ =
     Inr \<lparr>cleansed_path = ''s3://test-output/'', db_name = ''test_db'',
          table_name = ''test_table'', write_mode = ''upsert''\<rparr>"
    and "parse_s3_event mock_event = Inr (bucket, key) \<Longrightarrow>
          read_json ?L (''s3://'' @ format_value ?L bucket @ ''/'' @ key) = Inr df_raw \<Longrightarrow>
          getitem_column df_raw ''items'' = Inr items \<Longrightarrow>
          json_normalize ?L items = Inr dfp \<Longrightarrow>
          fst (lambda_handler ?L ?environ mock_event empty_world) =
            (case to_parquet ?L \<lparr>df = dfp, path = ''s3://test-output/'', dataset = True,
                database = ''test_db'', table = ''test_table'', mode = ''upsert''\<rparr> of
               Some e \<Rightarrow> Inl e
             | None \<Rightarrow> Inr \<lparr>statusCode = 200, body = ''Successfully processed '' @ key,
                            output_location = ''s3://test-output/'',
                            processed_rows = nrows dfp\<rparr>)"
    for bucket key df_raw items dfp
    by blast+
  from this(1) this(2) [OF parse_mock_event read_scenario_a it json_normalize_scenario_a]
  show ?thesis
    by (simp add: w)
qed

subsection \<open>Reading the notification\<close>

lemma s3_field_notification:
  assumes "map_of ev ''Records'' = Some (JArr (JObj r # rest))"
    and "map_of r ''s3'' = Some (JObj s3)"
    and "map_of s3 a = Some (JObj inner)"
    and "map_of inner b = Some v"
  shows "s3_field (JObj ev) a b = Inr v"
  using assms by (simp add: s3_field_def)

text \<open>A key without a percent sign: only the plus signs change.\<close>

lemma unquote_plus_no_percent:
  "CHR ''%'' \<notin> set s \<Longrightarrow>
   unquote_plus s = map (\<lambda>c. if c = CHR ''+'' then CHR '' '' else c) s"
  by (auto simp: unquote_plus_def unquote_def)

text \<open>
  A key with a plus sign, an escaped slash and an escaped two-byte character
  (U+00E9, bytes C3 A9).
\<close>

lemma unquote_plus_escaped_key:
  "unquote_plus ''raw+data%2Fcaf%C3%A9.json'' =
     ''raw data/caf'' @ [CHR 0xC3, CHR 0xA9] @ ''.json''"
  by code_simp

text \<open>
  Claim C5. For a notification whose first record carries the bucket name
  \<open>B\<close> under \<^verbatim>\<open>s3.bucket.name\<close> and the escaped key \<open>K_enc\<close> under
  \<^verbatim>\<open>s3.object.key\<close>, lines 37 and 38 give the bucket \<open>B\<close> and the key
  \<^verbatim>\<open>unquote_plus(K_enc, encoding='utf-8')\<close>.
\<close>

theorem parse_s3_event_unquotes_key:
  assumes "map_of ev ''Records'' = Some (JArr (JObj r # rest))"
    and "map_of r ''s3'' = Some (JObj s3)"
    and "map_of s3 ''bucket'' = Some (JObj b)"
    and "map_of b ''name'' = Some (JStr B)"
    and "map_of s3 ''object'' = Some (JObj ob)"
    and "map_of ob ''key'' = Some (JStr K_enc)"
  shows "parse_s3_event (JObj ev) = Inr (JStr B, unquote_plus K_enc)"
proof -
  have bucket: "s3_field (JObj ev) ''bucket'' ''name'' = Inr (JStr B)"
    using assms(1-4) by (rule s3_field_notification)
  have key: "s3_field (JObj ev) ''object'' ''key'' = Inr (JStr K_enc)"
    using assms(1,2,5,6) by (rule s3_field_notification)
  show ?thesis
    by (simp add: parse_s3_event_def bucket key)
qed

theorem parse_s3_event_unquotes_key_witness:
  "parse_s3_event
     (JObj [(''Records'',
        JArr [JObj [(''s3'', JObj [(''bucket'', JObj [(''name'', JStr ''test-bucket'')]),
                                   (''object'', JObj [(''key'', JStr ''raw+data%2Fcaf%C3%A9.json'')])])]])])
   = Inr (JStr ''test-bucket'', ''raw data/caf'' @ [CHR 0xC3, CHR 0xA9] @ ''.json'')"
  using parse_s3_event_unquotes_key
    [of "[(''Records'',
        JArr [JObj [(''s3'', JObj [(''bucket'', JObj [(''name'', JStr ''test-bucket'')]),
                                   (''object'', JObj [(''key'', JStr ''raw+data%2Fcaf%C3%A9.json'')])])]])]"
        "[(''s3'', JObj [(''bucket'', JObj [(''name'', JStr ''test-bucket'')]),
                                   (''object'', JObj [(''key'', JStr ''raw+data%2Fcaf%C3%A9.json'')])])]"
        "[]"
        "[(''bucket'', JObj [(''name'', JStr ''test-bucket'')]),
                                   (''object'', JObj [(''key'', JStr ''raw+data%2Fcaf%C3%A9.json'')])]"
        "[(''name'', JStr ''test-bucket'')]" "''test-bucket''"
        "[(''key'', JStr ''raw+data%2Fcaf%C3%A9.json'')]" "''raw+data%2Fcaf%C3%A9.json''"]
  by (simp add: unquote_plus_escaped_key)

lemma s3_field_first_record:
  "map_of ev ''Records'' = Some (JArr (r # rest)) \<Longrightarrow>
   s3_field (JObj ev) a b = s3_field (JObj [(''Records'', JArr [r])]) a b"
  by (simp add: s3_field_def)

lemma try_body_cong_event:
  "parse_s3_event event = parse_s3_event event' \<Longrightarrow>
   try_body L environ event w = try_body L environ event' w"
  by (cases "validate_environment environ") (simp_all add: try_body_def)

text \<open>
  Claim C6. When \<^verbatim>\<open>event['Records']\<close> is a list with the first entry \<open>r\<close>,
  whatever follows it, the bucket and the key are those of the event that holds
  \<open>r\<close> alone, and so are the result of the handler, what it logs and what it
  writes.
\<close>

theorem only_first_record_processed:
  assumes "map_of ev ''Records'' = Some (JArr (r # rest))"
  shows "parse_s3_event (JObj ev) = parse_s3_event (JObj [(''Records'', JArr [r])])
    \<and> lambda_handler L environ (JObj ev) w =
        lambda_handler L environ (JObj [(''Records'', JArr [r])]) w"
proof -
  have p: "parse_s3_event (JObj ev) = parse_s3_event (JObj [(''Records'', JArr [r])])"
    unfolding parse_s3_event_def s3_field_first_record [OF assms] ..
  from try_body_cong_event [OF p] p show ?thesis
    by (simp add: lambda_handler_def)
qed

text \<open>
  The test event followed by a second record, for another bucket and key, and by
  an entry that is no record at all.
\<close>

theorem only_first_record_processed_witness:
  "lambda_handler (storage_libs [(test_path, scenario_a_document)]) test_environ
     (JObj [(''Records'', JArr [s3_record ''test-bucket'' ''test/key.json'',
                                s3_record ''other-bucket'' ''other.json'', JNull])])
     empty_world
   = lambda_handler (storage_libs [(test_path, scenario_a_document)]) test_environ
       mock_event empty_world"
  using only_first_record_processed
    [of "[(''Records'', JArr [s3_record ''test-bucket'' ''test/key.json'',
                              s3_record ''other-bucket'' ''other.json'', JNull])]"
        "s3_record ''test-bucket'' ''test/key.json''"
        "[s3_record ''other-bucket'' ''other.json'', JNull]"
        "storage_libs [(test_path, scenario_a_document)]" test_environ empty_world]
  by (simp add: mock_event_def)

end
